theory Spec2Isabelle
  imports Complex_Main
begin

section \<open>Documents, requests and responses\<close>

text \<open>
  The project controller reads and writes two collections through Mongoose. A stored
  identifier is an ObjectId, kept here as the string its \<^verbatim>\<open>toString()\<close> gives. The
  handlers receive identifiers as strings of the request path (\<^verbatim>\<open>req.params\<close>), in
  whatever spelling the client chose; Mongoose casts such a string to an ObjectId where
  it looks a document up or stores the identifier.

  A Project document carries the fields the controller reads and writes
  (\<^verbatim>\<open>name\<close>, \<^verbatim>\<open>description\<close>, \<^verbatim>\<open>startDate\<close>, \<^verbatim>\<open>endDate\<close>, \<^verbatim>\<open>status\<close>,
  \<^verbatim>\<open>totalHours\<close>, \<^verbatim>\<open>owner\<close>, \<^verbatim>\<open>members\<close>) and its \<^verbatim>\<open>_id\<close>, here \<open>docId\<close>.
  A field that may be \<^verbatim>\<open>null\<close> or undefined in a document is an option. Dates are kept
  as the strings the request carries.
\<close>

type_synonym objectId = string

record project =
  docId :: objectId
  name :: "string option"
  description :: "string option"
  startDate :: "string option"
  endDate :: "string option"
  status :: "string option"
  totalHours :: int
  owner :: "objectId option"
  members :: "objectId list"

text \<open>
  The store: the Project collection in insertion order, and the User collection, of whose
  documents the controller uses the \<^verbatim>\<open>_id\<close> only.
\<close>

record store =
  projects :: "project list"
  users :: "objectId list"

text \<open>
  A field of the request body is any JSON value, or \<^verbatim>\<open>undefined\<close> when the body does
  not have it.
\<close>

datatype jsvalue =
    JUndefined
  | JNull
  | JBoolean bool
  | JNumber rat
  | JString string
  | JArray "jsvalue list"
  | JObject "(string \<times> jsvalue) list"

text \<open>
  What a handler reads of the request: the path parameters, the body fields and
  \<^verbatim>\<open>req.user?._id\<close>, which is \<open>None\<close> when no user is attached and otherwise the
  \<^verbatim>\<open>_id\<close> of a User document.
\<close>

record request =
  params_projectId :: string
  params_userId :: string
  body_name :: jsvalue
  body_description :: jsvalue
  body_startDate :: jsvalue
  body_endDate :: jsvalue
  body_status :: jsvalue
  user_id :: "objectId option"

text \<open>
  A handler either sends a response (\<^verbatim>\<open>res.status(n).json(...)\<close>) or lets an exception
  escape. \<open>Obj\<close> is the JSON object of a response, key by key; \<open>ApiResponse\<close> is the
  object built by \<^verbatim>\<open>new ApiResponse(status, data, message)\<close>.
\<close>

datatype exn = TypeError | CastError | ApiError nat string

datatype jsonval = Str string | Doc project | Docs "project list"

datatype payload = Obj "(string \<times> jsonval) list" | ApiResponse nat project string

datatype response = Response nat payload

type_synonym outcome = "(exn + response) \<times> store"

section \<open>Library functions the controller calls\<close>

subsection \<open>String.prototype.trim\<close>

text \<open>
  Characters are code units below 256; the white space and line terminators of
  ECMAScript in that range are TAB, LF, VT, FF, CR, SPACE and NBSP.
\<close>

definition isWhiteSpace :: "char \<Rightarrow> bool" where
  "isWhiteSpace c = (of_char c \<in> {9, 10, 11, 12, 13, 32, 160 :: nat})"

definition trim :: "string \<Rightarrow> string" where
  "trim s = rev (dropWhile isWhiteSpace (rev (dropWhile isWhiteSpace s)))"

text \<open>
  \<^verbatim>\<open>[name, description, startDate, endDate].some((field) => field.trim() === "")\<close>:
  \<^verbatim>\<open>some\<close> visits the elements in order and stops at the first one for which the callback
  is true. Only a string has a \<^verbatim>\<open>trim\<close> method: on \<^verbatim>\<open>undefined\<close> and \<^verbatim>\<open>null\<close>
  the property access throws a TypeError, and on a number, a boolean, an array or an
  object \<^verbatim>\<open>field.trim\<close> is not a function, so the call throws a TypeError.
\<close>

fun someFieldBlank :: "jsvalue list \<Rightarrow> exn + bool" where
  "someFieldBlank [] = Inr False"
| "someFieldBlank (field # rest) =
     (case field of
        JString s \<Rightarrow> (if trim s = [] then Inr True else someFieldBlank rest)
      | _ \<Rightarrow> Inl TypeError)"

text \<open>
  \<^verbatim>\<open>!field\<close> on a body field: true for \<^verbatim>\<open>undefined\<close>, \<^verbatim>\<open>null\<close>, \<^verbatim>\<open>false\<close>, zero
  and the empty string; arrays and objects are never falsy.
\<close>

fun falsy :: "jsvalue \<Rightarrow> bool" where
  "falsy JUndefined = True"
| "falsy JNull = True"
| "falsy (JBoolean b) = (\<not> b)"
| "falsy (JNumber n) = (n = 0)"
| "falsy (JString s) = (s = [])"
| "falsy (JArray xs) = False"
| "falsy (JObject kvs) = False"

text \<open>A body field as a string, when it is one.\<close>

fun asString :: "jsvalue \<Rightarrow> string option" where
  "asString (JString s) = Some s"
| "asString v = None"

subsection \<open>ObjectIds\<close>

text \<open>
  \<open>castObjectId\<close> is Mongoose's cast of a string to an ObjectId, given as the
  \<^verbatim>\<open>toString()\<close> of the result, or \<open>None\<close> when the cast fails. It is a parameter of
  every operation that uses it. \<^verbatim>\<open>isValidObjectId\<close> is Mongoose's syntactic test on
  identifiers: it is true of the values that can be cast. \<^verbatim>\<open>findById\<close> and its
  relatives cast the identifier they are given and throw a CastError when the cast
  fails.
\<close>

definition isValidObjectId :: "(string \<Rightarrow> objectId option) \<Rightarrow> string \<Rightarrow> bool" where
  "isValidObjectId castObjectId i = (castObjectId i \<noteq> None)"

definition Project_findById ::
  "(string \<Rightarrow> objectId option) \<Rightarrow> store \<Rightarrow> string \<Rightarrow> exn + project option" where
  "Project_findById castObjectId db i =
     (case castObjectId i of
        None \<Rightarrow> Inl CastError
      | Some c \<Rightarrow> Inr (find (\<lambda>p. docId p = c) (projects db)))"

definition User_findById ::
  "(string \<Rightarrow> objectId option) \<Rightarrow> store \<Rightarrow> string \<Rightarrow> exn + objectId option" where
  "User_findById castObjectId db i =
     (case castObjectId i of
        None \<Rightarrow> Inl CastError
      | Some c \<Rightarrow> Inr (find (\<lambda>u. u = c) (users db)))"

subsection \<open>Mongoose queries\<close>

text \<open>\<^verbatim>\<open>Project.findOne({name})\<close>: the first document whose name is the given string.\<close>

definition Project_findOne :: "store \<Rightarrow> string \<Rightarrow> project option" where
  "Project_findOne db n = find (\<lambda>p. name p = Some n) (projects db)"

text \<open>
  \<^verbatim>\<open>Project.create(doc)\<close> inserts the document and resolves to it; the \<^verbatim>\<open>_id\<close> is the
  ObjectId generated for the insert, which the caller of the model supplies.
\<close>

definition Project_create :: "store \<Rightarrow> project \<Rightarrow> project option \<times> store" where
  "Project_create db doc = (Some doc, db\<lparr>projects := projects db @ [doc]\<rparr>)"

text \<open>Writing to, and removing, the first document with a given \<^verbatim>\<open>_id\<close>.\<close>

fun replaceFirst :: "objectId \<Rightarrow> project \<Rightarrow> project list \<Rightarrow> project list" where
  "replaceFirst i p' [] = []"
| "replaceFirst i p' (p # ps) =
     (if docId p = i then p' # ps else p # replaceFirst i p' ps)"

fun removeFirst :: "objectId \<Rightarrow> project list \<Rightarrow> project list" where
  "removeFirst i [] = []"
| "removeFirst i (p # ps) = (if docId p = i then ps else p # removeFirst i ps)"

text \<open>
  \<^verbatim>\<open>$set: {name, description, startDate, endDate, status}\<close>. Before it sends an update
  Mongoose removes the keys whose value is \<^verbatim>\<open>undefined\<close> and casts every other value to
  the type its path has in the schema; a value that cannot be cast makes the call throw a
  CastError, and nothing is written. A string is stored as it is. What the cast makes of
  a present value that is not a string depends on the schema
  (\<^verbatim>\<open>models/project.model.js\<close>, which is not among the sources), so it is the parameter
  \<open>schemaCast\<close>: for a path and a value, \<open>None\<close> when the cast fails and otherwise the
  value stored (\<open>Some None\<close> is a stored \<^verbatim>\<open>null\<close>).

  \<open>castField\<close> gives what is written at one path: nothing (\<open>None\<close>) or a value.
\<close>

type_synonym schemaCast = "string \<Rightarrow> jsvalue \<Rightarrow> string option option"

fun castField :: "schemaCast \<Rightarrow> string \<Rightarrow> jsvalue \<Rightarrow> exn + string option option" where
  "castField schemaCast k JUndefined = Inr None"
| "castField schemaCast k (JString s) = Inr (Some (Some s))"
| "castField schemaCast k v =
     (case schemaCast k v of None \<Rightarrow> Inl CastError | Some w \<Rightarrow> Inr (Some w))"

definition written :: "string option option \<Rightarrow> string option \<Rightarrow> string option" where
  "written w old = (case w of None \<Rightarrow> old | Some v \<Rightarrow> v)"

definition castSet ::
  "schemaCast \<Rightarrow> jsvalue \<Rightarrow> jsvalue \<Rightarrow> jsvalue \<Rightarrow> jsvalue \<Rightarrow> jsvalue
     \<Rightarrow> exn + (project \<Rightarrow> project)" where
  "castSet schemaCast n d s e st =
     (case castField schemaCast ''name'' n of Inl x \<Rightarrow> Inl x | Inr wn \<Rightarrow>
      case castField schemaCast ''description'' d of Inl x \<Rightarrow> Inl x | Inr wd \<Rightarrow>
      case castField schemaCast ''startDate'' s of Inl x \<Rightarrow> Inl x | Inr ws \<Rightarrow>
      case castField schemaCast ''endDate'' e of Inl x \<Rightarrow> Inl x | Inr we \<Rightarrow>
      case castField schemaCast ''status'' st of Inl x \<Rightarrow> Inl x | Inr wst \<Rightarrow>
        Inr (\<lambda>p. p\<lparr>name := written wn (name p),
                   description := written wd (description p),
                   startDate := written ws (startDate p),
                   endDate := written we (endDate p),
                   status := written wst (status p)\<rparr>))"

text \<open>
  \<^verbatim>\<open>Project.findByIdAndUpdate(id, {$set: ...}, {new: true})\<close> resolves to the document
  after the update, or to \<^verbatim>\<open>null\<close> when no document has the id.
\<close>

definition Project_findByIdAndUpdate ::
  "(string \<Rightarrow> objectId option) \<Rightarrow> schemaCast \<Rightarrow> store \<Rightarrow> string
     \<Rightarrow> jsvalue \<Rightarrow> jsvalue \<Rightarrow> jsvalue \<Rightarrow> jsvalue \<Rightarrow> jsvalue
     \<Rightarrow> exn + (project option \<times> store)" where
  "Project_findByIdAndUpdate castObjectId schemaCast db i n d s e st =
     (case castObjectId i of
        None \<Rightarrow> Inl CastError
      | Some c \<Rightarrow>
          (case castSet schemaCast n d s e st of
             Inl x \<Rightarrow> Inl x
           | Inr upd \<Rightarrow>
               (case find (\<lambda>p. docId p = c) (projects db) of
                  None \<Rightarrow> Inr (None, db)
                | Some p \<Rightarrow> Inr (Some (upd p), db\<lparr>projects := replaceFirst c (upd p) (projects db)\<rparr>))))"

text \<open>
  \<^verbatim>\<open>Project.findByIdAndDelete(id)\<close> removes the document and resolves to it as it was,
  or to \<^verbatim>\<open>null\<close> when no document has the id.
\<close>

definition Project_findByIdAndDelete ::
  "(string \<Rightarrow> objectId option) \<Rightarrow> store \<Rightarrow> string \<Rightarrow> exn + (project option \<times> store)" where
  "Project_findByIdAndDelete castObjectId db i =
     (case castObjectId i of
        None \<Rightarrow> Inl CastError
      | Some c \<Rightarrow>
          (case find (\<lambda>p. docId p = c) (projects db) of
             None \<Rightarrow> Inr (None, db)
           | Some p \<Rightarrow> Inr (Some p, db\<lparr>projects := removeFirst c (projects db)\<rparr>)))"

text \<open>\<^verbatim>\<open>project.save()\<close> writes the document back under its \<^verbatim>\<open>_id\<close>.\<close>

definition Project_save :: "store \<Rightarrow> project \<Rightarrow> store" where
  "Project_save db p = db\<lparr>projects := replaceFirst (docId p) p (projects db)\<rparr>"

subsection \<open>Project.find with a filter\<close>

text \<open>
  A filter is a list of (path, value) pairs; a value \<open>None\<close> is \<^verbatim>\<open>undefined\<close>, which
  reaches the database as \<^verbatim>\<open>null\<close>. A pair matches a document when the document's value
  at the path equals the filter's value (a missing field equals \<^verbatim>\<open>null\<close>), or when the
  document's value is an array that contains it.
\<close>

datatype bson = Text string | Num int | Arr "string list"

text \<open>
  Modelled from the spec: the paths of the Project schema (\<^verbatim>\<open>models/project.model.js\<close>
  is not among the sources). They are the fields of the spec's data model, which are also
  the fields the controller reads and writes, and \<^verbatim>\<open>_id\<close>.
\<close>

definition schemaPaths :: "string list" where
  "schemaPaths = [''_id'', ''name'', ''description'', ''startDate'', ''endDate'',
     ''status'', ''totalHours'', ''owner'', ''members'']"

definition pathValue :: "project \<Rightarrow> string \<Rightarrow> bson option" where
  "pathValue p k =
     (if k = ''_id'' then Some (Text (docId p))
      else if k = ''name'' then map_option Text (name p)
      else if k = ''description'' then map_option Text (description p)
      else if k = ''startDate'' then map_option Text (startDate p)
      else if k = ''endDate'' then map_option Text (endDate p)
      else if k = ''status'' then map_option Text (status p)
      else if k = ''totalHours'' then Some (Num (totalHours p))
      else if k = ''owner'' then map_option Text (owner p)
      else if k = ''members'' then Some (Arr (members p))
      else None)"

definition fieldMatches :: "bson option \<Rightarrow> bson option \<Rightarrow> bool" where
  "fieldMatches dv fv =
     (dv = fv \<or> (case (dv, fv) of (Some (Arr xs), Some (Text x)) \<Rightarrow> x \<in> set xs | _ \<Rightarrow> False))"

text \<open>
  With \<^verbatim>\<open>strictQuery\<close> on, Mongoose drops from a filter the paths that are not in the
  schema; with it off, the filter is sent as it is. The default differs between Mongoose
  releases, so it is a parameter.
\<close>

definition Project_find :: "bool \<Rightarrow> store \<Rightarrow> (string \<times> bson option) list \<Rightarrow> project list" where
  "Project_find strictQuery db flt =
     (let sent = (if strictQuery then filter (\<lambda>kv. fst kv \<in> set schemaPaths) flt else flt)
      in filter (\<lambda>p. list_all (\<lambda>kv. fieldMatches (pathValue p (fst kv)) (snd kv)) sent) (projects db))"

section \<open>The handlers of the project controller\<close>

text \<open>
  A \<^verbatim>\<open>catch\<close> block that answers 500 with a message: an exception of the \<^verbatim>\<open>try\<close> block
  becomes that response, and what was written before the exception stays written.
\<close>

definition catch500 :: "string \<Rightarrow> outcome \<Rightarrow> outcome" where
  "catch500 m r =
     (case r of
        (Inl e, db) \<Rightarrow> (Inr (Response 500 (Obj [(''msg'', Str m)])), db)
      | (Inr x, db) \<Rightarrow> (Inr x, db))"

subsection \<open>createProject\<close>

text \<open>
  The blank-field test runs before the \<^verbatim>\<open>try\<close>, so its TypeError escapes the handler.
  After the test has answered false all four fields are strings; the last case of the
  \<^verbatim>\<open>try\<close> block below is never taken (lemma \<open>someFieldBlank_False\<close>). \<open>newId\<close> is the
  ObjectId generated for the new document. The handler gives the document six fields;
  the schema's defaults give the others: as in the spec, \<^verbatim>\<open>status\<close> is unset and
  \<^verbatim>\<open>members\<close> is empty at creation.
\<close>

definition createProject_try :: "store \<Rightarrow> objectId \<Rightarrow> request \<Rightarrow> outcome" where
  "createProject_try db newId req =
     (case (asString (body_name req), asString (body_description req),
            asString (body_startDate req), asString (body_endDate req)) of
        (Some n, Some d, Some s, Some e) \<Rightarrow>
          (case Project_findOne db n of
             Some existingProject \<Rightarrow>
               (Inr (Response 400 (Obj [(''mjsg'', Str ''Project with this name alraeady exists'')])), db)
           | None \<Rightarrow>
               (case Project_create db
                       \<lparr>docId = newId, name = Some n, description = Some d, startDate = Some s,
                        endDate = Some e, status = None, totalHours = 0, owner = user_id req,
                        members = []\<rparr> of
                  (None, db') \<Rightarrow>
                    (Inr (Response 401 (Obj [(''msg'', Str ''Something went wrong while creating project'')])), db')
                | (Some newProject, db') \<Rightarrow>
                    (Inr (Response 200 (Obj [(''newProject'', Doc newProject),
                                            (''msg'', Str ''Project Created Successfully'')])), db')))
      | _ \<Rightarrow> (Inl TypeError, db))"

definition createProject :: "store \<Rightarrow> objectId \<Rightarrow> request \<Rightarrow> outcome" where
  "createProject db newId req =
     (case someFieldBlank [body_name req, body_description req, body_startDate req, body_endDate req] of
        Inl e \<Rightarrow> (Inl e, db)
      | Inr True \<Rightarrow> (Inr (Response 400 (Obj [(''msg'', Str ''All fields are required'')])), db)
      | Inr False \<Rightarrow>
          catch500 ''Some server error occurred while creating project''
            (createProject_try db newId req))"

subsection \<open>getProjectById\<close>

definition getProjectById_try :: "(string \<Rightarrow> objectId option) \<Rightarrow> store \<Rightarrow> request \<Rightarrow> outcome" where
  "getProjectById_try castObjectId db req =
     (case Project_findById castObjectId db (params_projectId req) of
        Inl e \<Rightarrow> (Inl e, db)
      | Inr None \<Rightarrow> (Inr (Response 404 (Obj [(''msg'', Str ''Project Not Found!!'')])), db)
      | Inr (Some project) \<Rightarrow>
          (Inr (Response 200 (Obj [(''project'', Doc project),
                                  (''msg'', Str ''Project Fetched Successfully!! :)'')])), db))"

definition getProjectById :: "(string \<Rightarrow> objectId option) \<Rightarrow> store \<Rightarrow> request \<Rightarrow> outcome" where
  "getProjectById castObjectId db req =
     (if \<not> isValidObjectId castObjectId (params_projectId req)
      then (Inr (Response 401 (Obj [(''msg'', Str ''Enter valid project Id'')])), db)
      else catch500 ''Some server error occured while retriving project!! :(''
             (getProjectById_try castObjectId db req))"

subsection \<open>getAllProjectsOfAUser\<close>

text \<open>
  \<^verbatim>\<open>Project.find({ userId })\<close>: the filter's one path is \<^verbatim>\<open>userId\<close>. A query resolves
  to an array, which is never falsy, so the 400 branch of the source is never taken.
\<close>

definition getAllProjectsOfAUser :: "bool \<Rightarrow> store \<Rightarrow> request \<Rightarrow> outcome" where
  "getAllProjectsOfAUser strictQuery db req =
     (let allProjects = Project_find strictQuery db [(''userId'', map_option Text (user_id req))]
      in (Inr (Response 200 (Obj [(''allProjects'', Docs allProjects),
                                 (''msg'', Str ''All project of user fetched successfully!!'')])), db))"

subsection \<open>updateProject\<close>

text \<open>
  \<^verbatim>\<open>project.owner?.toString() !== req.user?._id.toString()\<close> compares two values that
  are a string or \<^verbatim>\<open>undefined\<close>. When \<^verbatim>\<open>findById\<close> resolved to \<^verbatim>\<open>null\<close>, reading
  \<^verbatim>\<open>project.owner\<close> throws a TypeError inside the \<^verbatim>\<open>try\<close>.
\<close>

definition updateProject_try ::
  "(string \<Rightarrow> objectId option) \<Rightarrow> schemaCast \<Rightarrow> store \<Rightarrow> request \<Rightarrow> outcome" where
  "updateProject_try castObjectId schemaCast db req =
     (case Project_findById castObjectId db (params_projectId req) of
        Inl e \<Rightarrow> (Inl e, db)
      | Inr None \<Rightarrow> (Inl TypeError, db)
      | Inr (Some project) \<Rightarrow>
          if owner project \<noteq> user_id req
          then (Inr (Response 400 (Obj [(''msg'', Str ''You are not authorized to make changes to this project!!'')])), db)
          else (case Project_findByIdAndUpdate castObjectId schemaCast db (params_projectId req)
                       (body_name req) (body_description req) (body_startDate req)
                       (body_endDate req) (body_status req) of
                  Inl e \<Rightarrow> (Inl e, db)
                | Inr (None, db') \<Rightarrow>
                    (Inr (Response 401 (Obj [(''msg'', Str ''Something went wrong while updating project'')])), db')
                | Inr (Some updateProject', db') \<Rightarrow>
                    (Inr (Response 200 (Obj [(''updateProject'', Doc updateProject'),
                                            (''msg'', Str ''Project updated successfully!!'')])), db')))"

definition updateProject ::
  "(string \<Rightarrow> objectId option) \<Rightarrow> schemaCast \<Rightarrow> store \<Rightarrow> request \<Rightarrow> outcome" where
  "updateProject castObjectId schemaCast db req =
     (if falsy (body_name req) \<and> falsy (body_description req) \<and> falsy (body_startDate req)
         \<and> falsy (body_endDate req) \<and> falsy (body_status req)
      then (Inr (Response 400 (Obj [(''msg'', Str ''Enter some details to change/update'')])), db)
      else catch500 ''Some server error occured while updating project!! :(''
             (updateProject_try castObjectId schemaCast db req))"

subsection \<open>deleteProject\<close>

definition deleteProject :: "(string \<Rightarrow> objectId option) \<Rightarrow> store \<Rightarrow> request \<Rightarrow> outcome" where
  "deleteProject castObjectId db req =
     (if \<not> isValidObjectId castObjectId (params_projectId req)
      then (Inr (Response 401 (Obj [(''msg'', Str ''Invalid objectId or project ID'')])), db)
      else (case Project_findByIdAndDelete castObjectId db (params_projectId req) of
              Inl e \<Rightarrow> (Inl e, db)
            | Inr (None, db') \<Rightarrow>
                (Inr (Response 404 (Obj [(''msg'', Str ''Project not found to delete'')])), db')
            | Inr (Some deleteProject', db') \<Rightarrow>
                (Inr (Response 200 (Obj [(''deleteProject'', Doc deleteProject'),
                                        (''msg'', Str ''Project deleted successfully!!'')])), db')))"

subsection \<open>addMembersToProject\<close>

text \<open>
  This handler has no \<^verbatim>\<open>try\<close>: each \<^verbatim>\<open>throw new ApiError(...)\<close> escapes it.
  \<^verbatim>\<open>project.owner.toString()\<close> throws a TypeError when the owner is undefined.

  Modelled from the spec: \<^verbatim>\<open>members\<close> is an array of User ids, that is of ObjectIds (the
  schema is not among the sources). \<^verbatim>\<open>members.includes(userId)\<close> compares the string
  \<^verbatim>\<open>userId\<close>, as the request spells it, with the \<^verbatim>\<open>toString()\<close> of each member;
  \<^verbatim>\<open>members.push(userId)\<close> casts the string to an ObjectId and appends that.
\<close>

definition addMembersToProject :: "(string \<Rightarrow> objectId option) \<Rightarrow> store \<Rightarrow> request \<Rightarrow> outcome" where
  "addMembersToProject castObjectId db req =
     (let projectId = params_projectId req; userId = params_userId req in
      if \<not> isValidObjectId castObjectId projectId \<or> \<not> isValidObjectId castObjectId userId
      then (Inl (ApiError 401 ''Invalid projectId or UserId''), db)
      else (case Project_findById castObjectId db projectId of
              Inl e \<Rightarrow> (Inl e, db)
            | Inr None \<Rightarrow> (Inl (ApiError 404 ''Project not found to add members!!''), db)
            | Inr (Some project) \<Rightarrow>
                (case User_findById castObjectId db userId of
                   Inl e \<Rightarrow> (Inl e, db)
                 | Inr None \<Rightarrow> (Inl (ApiError 404 ''User not found to add members!!''), db)
                 | Inr (Some user) \<Rightarrow>
                     (case owner project of
                        None \<Rightarrow> (Inl TypeError, db)
                      | Some ownerId \<Rightarrow>
                          if Some ownerId \<noteq> user_id req
                          then (Inl (ApiError 401 ''You are not the owner of this project, only owner can add members''), db)
                          else if userId \<in> set (members project)
                          then (Inl (ApiError 401 ''User is already a member of this project''), db)
                          else (case castObjectId userId of
                                  None \<Rightarrow> (Inl CastError, db)
                                | Some member \<Rightarrow>
                                    (let project' = project\<lparr>members := members project @ [member]\<rparr>
                                     in (Inr (Response 200 (ApiResponse 200 project' ''Member added successfully!!'')),
                                         Project_save db project')))))))"

section \<open>Runs of the controller\<close>

text \<open>
  A run is a sequence of requests served one after the other, each on the store the
  previous one left. \<open>UsersChange\<close> stands for the user service, which is the only other
  writer and writes the User collection only.
\<close>

datatype operation =
    CreateProject objectId request
  | GetProjectById request
  | GetAllProjectsOfAUser request
  | UpdateProject request
  | DeleteProject request
  | AddMembersToProject request
  | UsersChange "objectId list"

fun step ::
  "(string \<Rightarrow> objectId option) \<Rightarrow> schemaCast \<Rightarrow> bool \<Rightarrow> store \<Rightarrow> operation \<Rightarrow> store" where
  "step castObjectId schemaCast strictQuery db (CreateProject newId req) = snd (createProject db newId req)"
| "step castObjectId schemaCast strictQuery db (GetProjectById req) = snd (getProjectById castObjectId db req)"
| "step castObjectId schemaCast strictQuery db (GetAllProjectsOfAUser req) = snd (getAllProjectsOfAUser strictQuery db req)"
| "step castObjectId schemaCast strictQuery db (UpdateProject req) = snd (updateProject castObjectId schemaCast db req)"
| "step castObjectId schemaCast strictQuery db (DeleteProject req) = snd (deleteProject castObjectId db req)"
| "step castObjectId schemaCast strictQuery db (AddMembersToProject req) = snd (addMembersToProject castObjectId db req)"
| "step castObjectId schemaCast strictQuery db (UsersChange us) = db\<lparr>users := us\<rparr>"

definition run ::
  "(string \<Rightarrow> objectId option) \<Rightarrow> schemaCast \<Rightarrow> bool \<Rightarrow> store \<Rightarrow> operation list \<Rightarrow> store" where
  "run castObjectId schemaCast strictQuery db ops = foldl (step castObjectId schemaCast strictQuery) db ops"


section \<open>Concrete data\<close>

text \<open>
  An instance of the cast: a string of 24 hexadecimal digits is cast to the ObjectId
  whose \<^verbatim>\<open>toString()\<close> is the string in lower case, and no other string is cast. An
  instance of the schema's cast: \<^verbatim>\<open>null\<close> is stored as it is and every other value
  that is not a string is refused.
\<close>

definition hexString24 :: "string \<Rightarrow> bool" where
  "hexString24 s = (length s = 24 \<and> list_all (\<lambda>c. c \<in> set ''0123456789abcdefABCDEF'') s)"

definition lowerHex :: "char \<Rightarrow> char" where
  "lowerHex c =
     (if c = CHR ''A'' then CHR ''a'' else if c = CHR ''B'' then CHR ''b''
      else if c = CHR ''C'' then CHR ''c'' else if c = CHR ''D'' then CHR ''d''
      else if c = CHR ''E'' then CHR ''e'' else if c = CHR ''F'' then CHR ''f'' else c)"

definition hexObjectId :: "string \<Rightarrow> objectId option" where
  "hexObjectId s = (if hexString24 s then Some (map lowerHex s) else None)"

definition nullOnly :: schemaCast where
  "nullOnly k v = (case v of JNull \<Rightarrow> Some None | _ \<Rightarrow> None)"

text \<open>
  The projects, users and requests of the scenarios: project Alpha of user \<open>U1\<close> with
  member \<open>U2\<close>, project Beta of user \<open>U2\<close>, and a third user \<open>U3\<close>; \<open>U2upper\<close> is the id
  of \<open>U2\<close> spelled in upper case.
\<close>

definition U1 :: objectId where "U1 = ''65a0000000000000000000a1''"
definition U2 :: objectId where "U2 = ''65a0000000000000000000a2''"
definition U3 :: objectId where "U3 = ''65a0000000000000000000a3''"
definition U2upper :: string where "U2upper = ''65A0000000000000000000A2''"
definition P1 :: objectId where "P1 = ''65b0000000000000000000b1''"
definition P2 :: objectId where "P2 = ''65b0000000000000000000b2''"
definition P9 :: objectId where "P9 = ''65b0000000000000000000b9''"

definition alpha0 :: project where
  "alpha0 = \<lparr>docId = P1, name = Some ''Alpha'', description = Some ''d'',
     startDate = Some ''2024-01-01'', endDate = Some ''2024-12-31'', status = None,
     totalHours = 0, owner = Some U1, members = []\<rparr>"

definition alpha :: project where
  "alpha = alpha0\<lparr>members := [U2]\<rparr>"

definition beta :: project where
  "beta = \<lparr>docId = P2, name = Some ''Beta'', description = Some ''e'',
     startDate = Some ''2024-02-01'', endDate = Some ''2024-11-30'', status = Some ''active'',
     totalHours = 0, owner = Some U2, members = []\<rparr>"

definition emptyStore :: store where
  "emptyStore = \<lparr>projects = [], users = [U1, U2, U3]\<rparr>"

definition exampleStore :: store where
  "exampleStore = \<lparr>projects = [alpha, beta], users = [U1, U2, U3]\<rparr>"

definition noBody :: "string \<Rightarrow> string \<Rightarrow> objectId \<Rightarrow> request" where
  "noBody projectId userId caller =
     \<lparr>params_projectId = projectId, params_userId = userId, body_name = JUndefined,
      body_description = JUndefined, body_startDate = JUndefined, body_endDate = JUndefined,
      body_status = JUndefined, user_id = Some caller\<rparr>"

definition createBody :: "jsvalue \<Rightarrow> jsvalue \<Rightarrow> jsvalue \<Rightarrow> jsvalue \<Rightarrow> objectId \<Rightarrow> request" where
  "createBody n d s e caller =
     (noBody [] [] caller)\<lparr>body_name := n, body_description := d, body_startDate := s, body_endDate := e\<rparr>"

section \<open>Auxiliary facts\<close>

lemmas example_defs = hexString24_def lowerHex_def hexObjectId_def nullOnly_def U1_def U2_def U3_def
  U2upper_def P1_def P2_def P9_def alpha0_def alpha_def beta_def emptyStore_def exampleStore_def
  noBody_def createBody_def

lemmas handler_defs = createProject_def createProject_try_def getProjectById_def
  getProjectById_try_def getAllProjectsOfAUser_def updateProject_def updateProject_try_def
  deleteProject_def addMembersToProject_def catch500_def trim_def isWhiteSpace_def
  isValidObjectId_def Project_findById_def User_findById_def Project_findOne_def
  Project_create_def Project_findByIdAndUpdate_def Project_findByIdAndDelete_def
  Project_save_def castSet_def written_def

lemma find_replaceFirst:
  "find (\<lambda>q. docId q = i) ps = Some p \<Longrightarrow> docId p' = i \<Longrightarrow>
     find (\<lambda>q. docId q = i) (replaceFirst i p' ps) = Some p'"
  by (induction ps) (auto split: if_splits)

lemma find_docId: "find (\<lambda>q. docId q = i) ps = Some p \<Longrightarrow> docId p = i \<and> p \<in> set ps"
  by (induction ps) (auto split: if_splits)



lemma find_name_None: "find (\<lambda>p. name p = Some n) ps = None \<longleftrightarrow> Some n \<notin> name ` set ps"
  by (induction ps) auto


lemma catch500_sends: "\<exists>r. fst (catch500 m x) = Inr r"
  by (cases x) (auto simp: catch500_def split: sum.splits)


text \<open>The three outcomes of the blank-field test, by the shape of the list of fields.\<close>

lemma someFieldBlank_throws:
  "list_all (\<lambda>s. trim s \<noteq> []) pre \<Longrightarrow> asString x = None \<Longrightarrow>
     someFieldBlank (map JString pre @ x # post) = Inl TypeError"
  by (induction pre) (auto split: jsvalue.splits)

lemma someFieldBlank_True:
  "list_all (\<lambda>s. trim s \<noteq> []) pre \<Longrightarrow> trim b = [] \<Longrightarrow>
     someFieldBlank (map JString pre @ JString b # post) = Inr True"
  by (induction pre) simp_all

lemma someFieldBlank_strings:
  "list_all (\<lambda>s. trim s \<noteq> []) ss \<Longrightarrow> someFieldBlank (map JString ss) = Inr False"
  by (induction ss) simp_all

lemma fields_shape:
  "(\<exists>ss. fs = map JString ss \<and> list_all (\<lambda>s. trim s \<noteq> []) ss)
   \<or> (\<exists>pre b post. fs = map JString pre @ JString b # post
         \<and> list_all (\<lambda>s. trim s \<noteq> []) pre \<and> trim b = [])
   \<or> (\<exists>pre x post. fs = map JString pre @ x # post
         \<and> list_all (\<lambda>s. trim s \<noteq> []) pre \<and> asString x = None)"
  (is "?A fs \<or> ?B fs \<or> ?C fs")
proof (induction fs)
  case Nil
  have "[] = map JString [] \<and> list_all (\<lambda>s. trim s \<noteq> []) []" by simp
  then show ?case by blast
next
  case (Cons f fs)
  show ?case
  proof (cases "asString f")
    case None
    then have "f # fs = map JString [] @ f # fs \<and> list_all (\<lambda>s. trim s \<noteq> []) [] \<and> asString f = None"
      by simp
    then have "?C (f # fs)" by blast
    then show ?thesis by blast
  next
    case (Some s)
    then have f: "f = JString s" by (cases f) simp_all
    show ?thesis
    proof (cases "trim s = []")
      case True
      with f have "f # fs = map JString [] @ JString s # fs \<and> list_all (\<lambda>s. trim s \<noteq> []) [] \<and> trim s = []"
        by simp
      then have "?B (f # fs)" by blast
      then show ?thesis by blast
    next
      case False
      from Cons.IH consider (a) "?A fs" | (b) "?B fs" | (c) "?C fs" by blast
      then show ?thesis
      proof cases
        case a
        then obtain ss where "fs = map JString ss" "list_all (\<lambda>s. trim s \<noteq> []) ss" by blast
        with f False have "f # fs = map JString (s # ss) \<and> list_all (\<lambda>s. trim s \<noteq> []) (s # ss)"
          by simp
        then have "?A (f # fs)" by (rule exI)
        then show ?thesis by blast
      next
        case b
        then obtain pre b' post where "fs = map JString pre @ JString b' # post"
          "list_all (\<lambda>s. trim s \<noteq> []) pre" "trim b' = []" by blast
        with f False have "f # fs = map JString (s # pre) @ JString b' # post
          \<and> list_all (\<lambda>s. trim s \<noteq> []) (s # pre) \<and> trim b' = []" by simp
        then have "?B (f # fs)" by blast
        then show ?thesis by blast
      next
        case c
        then obtain pre x post where "fs = map JString pre @ x # post"
          "list_all (\<lambda>s. trim s \<noteq> []) pre" "asString x = None" by blast
        with f False have "f # fs = map JString (s # pre) @ x # post
          \<and> list_all (\<lambda>s. trim s \<noteq> []) (s # pre) \<and> asString x = None" by simp
        then have "?C (f # fs)" by blast
        then show ?thesis by blast
      qed
    qed
  qed
qed

lemma someFieldBlank_False:
  assumes "someFieldBlank [a, b, c, d] = Inr False"
  shows "\<exists>n d' s e. a = JString n \<and> b = JString d' \<and> c = JString s \<and> d = JString e
        \<and> trim n \<noteq> [] \<and> trim d' \<noteq> [] \<and> trim s \<noteq> [] \<and> trim e \<noteq> []"
  using fields_shape [of "[a, b, c, d]"]
proof (elim disjE exE conjE)
  fix ss
  assume ss: "[a, b, c, d] = map JString ss" "list_all (\<lambda>s. trim s \<noteq> []) ss"
  from ss(1) obtain n d' s e where "ss = [n, d', s, e]"
    by (auto simp: Cons_eq_map_conv)
  with ss show ?thesis by simp
next
  fix pre b' post
  assume h: "[a, b, c, d] = map JString pre @ JString b' # post"
    "list_all (\<lambda>s. trim s \<noteq> []) pre" "trim b' = []"
  from someFieldBlank_True [OF h(2,3), of post] h(1) assms have False by simp
  then show ?thesis ..
next
  fix pre x post
  assume h: "[a, b, c, d] = map JString pre @ x # post"
    "list_all (\<lambda>s. trim s \<noteq> []) pre" "asString x = None"
  from someFieldBlank_throws [OF h(2,3), of post] h(1) assms have False by simp
  then show ?thesis ..
qed

section \<open>createProject\<close>

text \<open>
  C4. When the four body fields are strings that are not blank after trimming, no stored
  project has the given name and the request carries the authenticated caller's id,
  createProject answers 200 with the created project, whose owner is the caller and whose
  totalHours is 0, and the store holds that project after the existing ones.
\<close>

theorem createProject_valid_unique:
  assumes "body_name req = JString n" and "body_description req = JString d"
    and "body_startDate req = JString s" and "body_endDate req = JString e"
    and "trim n \<noteq> []" and "trim d \<noteq> []" and "trim s \<noteq> []" and "trim e \<noteq> []"
    and "Some n \<notin> name ` set (projects db)"
    and "user_id req = Some callerId"
  shows "let newProject = \<lparr>docId = newId, name = Some n, description = Some d,
                            startDate = Some s, endDate = Some e, status = None,
                            totalHours = 0, owner = Some callerId, members = []\<rparr>
         in createProject db newId req =
              (Inr (Response 200 (Obj [(''newProject'', Doc newProject),
                                      (''msg'', Str ''Project Created Successfully'')])),
               db\<lparr>projects := projects db @ [newProject]\<rparr>)
            \<and> owner newProject = Some callerId \<and> totalHours newProject = 0"
proof -
  have "Project_findOne db n = None"
    using assms(9) by (simp add: Project_findOne_def find_name_None)
  then show ?thesis
    using assms(1-8,10)
    by (simp add: createProject_def createProject_try_def catch500_def Project_create_def)
qed

theorem createProject_valid_unique_witness:
  "createProject emptyStore P1
     (createBody (JString ''Alpha'') (JString ''d'') (JString ''2024-01-01'') (JString ''2024-12-31'') U1) =
     (Inr (Response 200 (Obj [(''newProject'', Doc alpha0),
                             (''msg'', Str ''Project Created Successfully'')])),
      \<lparr>projects = [alpha0], users = [U1, U2, U3]\<rparr>)
   \<and> owner alpha0 = Some U1 \<and> totalHours alpha0 = 0"
  using createProject_valid_unique [of
      "createBody (JString ''Alpha'') (JString ''d'') (JString ''2024-01-01'') (JString ''2024-12-31'') U1"
      "''Alpha''" "''d''" "''2024-01-01''" "''2024-12-31''" emptyStore U1 P1]
  by (simp add: example_defs trim_def isWhiteSpace_def Let_def)

text \<open>
  C6, as amended. A creation attempt whose name is the name of a stored project inserts
  no document, whatever the other fields are. When, moreover, all four fields are strings
  that are not blank after trimming, the answer is the 400 response of the name check
  (the ConflictError). Without that condition the blank-field test, which runs first,
  decides the answer.
\<close>

theorem createProject_existing_name:
  assumes "body_name req = JString n" and "Some n \<in> name ` set (projects db)"
  shows "snd (createProject db newId req) = db
    \<and> (\<forall>d s e. body_description req = JString d \<and> body_startDate req = JString s
          \<and> body_endDate req = JString e
          \<and> trim n \<noteq> [] \<and> trim d \<noteq> [] \<and> trim s \<noteq> [] \<and> trim e \<noteq> []
        \<longrightarrow> fst (createProject db newId req) =
              Inr (Response 400 (Obj [(''mjsg'', Str ''Project with this name alraeady exists'')])))"
proof -
  from assms(2) obtain p where p: "Project_findOne db n = Some p"
    using find_name_None [of n "projects db"] by (auto simp: Project_findOne_def)
  show ?thesis
  proof (cases "someFieldBlank [body_name req, body_description req, body_startDate req, body_endDate req]")
    case (Inl e)
    then show ?thesis using assms(1) by (auto simp: createProject_def split: if_splits)
  next
    case (Inr b)
    show ?thesis
    proof (cases b)
      case True
      with Inr show ?thesis using assms(1) by (auto simp: createProject_def split: if_splits)
    next
      case False
      with Inr have "someFieldBlank [body_name req, body_description req, body_startDate req, body_endDate req] = Inr False"
        by simp
      from someFieldBlank_False [OF this]
      obtain n' d s e where "body_name req = JString n'" "body_description req = JString d"
        "body_startDate req = JString s" "body_endDate req = JString e"
        by blast
      with Inr False p assms(1) show ?thesis
        by (simp add: createProject_def createProject_try_def catch500_def)
    qed
  qed
qed

theorem createProject_existing_name_witness:
  "createProject exampleStore P9
     (createBody (JString ''Alpha'') (JString ''x'') (JString ''2025-01-01'') (JString ''2025-12-31'') U3) =
     (Inr (Response 400 (Obj [(''mjsg'', Str ''Project with this name alraeady exists'')])), exampleStore)"
  using createProject_existing_name [of
      "createBody (JString ''Alpha'') (JString ''x'') (JString ''2025-01-01'') (JString ''2025-12-31'') U3"
      "''Alpha''" exampleStore P9]
  by (simp add: example_defs trim_def isWhiteSpace_def prod_eq_iff)

text \<open>
  The claim C6 as it is stated fails: with the name of the stored project Alpha and a
  blank description the answer is the 400 response of the blank-field test (the
  ValidationError), not that of the name check.
\<close>

theorem createProject_existing_name_counterexample:
  "body_name (createBody (JString ''Alpha'') (JString '' '') (JString ''2025-01-01'') (JString ''2025-12-31'') U3)
     = JString ''Alpha''
   \<and> Some ''Alpha'' \<in> name ` set (projects exampleStore)
   \<and> createProject exampleStore P9
       (createBody (JString ''Alpha'') (JString '' '') (JString ''2025-01-01'') (JString ''2025-12-31'') U3) =
       (Inr (Response 400 (Obj [(''msg'', Str ''All fields are required'')])), exampleStore)"
  by (simp add: example_defs createProject_def trim_def isWhiteSpace_def)

text \<open>
  C9, as amended. When a field is absent, or is present but not a string, and every field
  before it (in the order name, description, startDate, endDate) is a string that is not
  blank after trimming, the blank-field test throws a TypeError, which escapes the
  handler, and nothing is written. When a blank string comes first, after strings that
  are not blank, the test answers true there and the handler sends the 400 response of
  the test, whatever the later fields are. The test does not throw only when all four
  fields are strings or such a blank string comes first; and when all four fields are
  strings the handler always sends a response.
\<close>

theorem createProject_absent_field:
  "(\<forall>pre x post.
       [body_name req, body_description req, body_startDate req, body_endDate req]
         = map JString pre @ x # post
       \<and> list_all (\<lambda>s. trim s \<noteq> []) pre \<and> asString x = None \<longrightarrow>
       createProject db newId req = (Inl TypeError, db))
   \<and> (\<forall>pre b post.
         [body_name req, body_description req, body_startDate req, body_endDate req]
           = map JString pre @ JString b # post
         \<and> list_all (\<lambda>s. trim s \<noteq> []) pre \<and> trim b = [] \<longrightarrow>
         createProject db newId req =
           (Inr (Response 400 (Obj [(''msg'', Str ''All fields are required'')])), db))
   \<and> (fst (createProject db newId req) \<noteq> Inl TypeError \<longrightarrow>
        (\<exists>n d s e. body_name req = JString n \<and> body_description req = JString d
            \<and> body_startDate req = JString s \<and> body_endDate req = JString e) \<or>
        (\<exists>pre b post.
            [body_name req, body_description req, body_startDate req, body_endDate req]
              = map JString pre @ JString b # post
            \<and> list_all (\<lambda>s. trim s \<noteq> []) pre \<and> trim b = []))
   \<and> (\<forall>n d s e. body_name req = JString n \<and> body_description req = JString d
          \<and> body_startDate req = JString s \<and> body_endDate req = JString e
        \<longrightarrow> (\<exists>r. fst (createProject db newId req) = Inr r))"
proof -
  let ?fs = "[body_name req, body_description req, body_startDate req, body_endDate req]"
  have a: "createProject db newId req = (Inl TypeError, db)"
    if "?fs = map JString pre @ x # post \<and> list_all (\<lambda>s. trim s \<noteq> []) pre \<and> asString x = None"
    for pre x post
  proof -
    from that have "someFieldBlank ?fs = Inl TypeError"
      using someFieldBlank_throws [of pre x post] by simp
    then show ?thesis by (simp add: createProject_def)
  qed
  have b: "createProject db newId req =
           (Inr (Response 400 (Obj [(''msg'', Str ''All fields are required'')])), db)"
    if "?fs = map JString pre @ JString b # post \<and> list_all (\<lambda>s. trim s \<noteq> []) pre \<and> trim b = []"
    for pre b post
  proof -
    from that have "someFieldBlank ?fs = Inr True"
      using someFieldBlank_True [of pre b post] by simp
    then show ?thesis by (simp add: createProject_def)
  qed
  have c: "fst (createProject db newId req) = Inl TypeError \<or>
        (\<exists>n d s e. body_name req = JString n \<and> body_description req = JString d
            \<and> body_startDate req = JString s \<and> body_endDate req = JString e) \<or>
        (\<exists>pre b post. ?fs = map JString pre @ JString b # post
            \<and> list_all (\<lambda>s. trim s \<noteq> []) pre \<and> trim b = [])"
    using fields_shape [of ?fs]
  proof (elim disjE exE conjE)
    fix ss
    assume ss: "?fs = map JString ss" "list_all (\<lambda>s. trim s \<noteq> []) ss"
    from ss(1) obtain n d s e where "ss = [n, d, s, e]"
      by (auto simp: Cons_eq_map_conv)
    with ss(1) have "\<exists>n d s e. body_name req = JString n \<and> body_description req = JString d
            \<and> body_startDate req = JString s \<and> body_endDate req = JString e" by simp
    then show ?thesis by (intro disjI2 disjI1)
  next
    fix pre b' post
    assume "?fs = map JString pre @ JString b' # post"
      "list_all (\<lambda>s. trim s \<noteq> []) pre" "trim b' = []"
    then have "\<exists>pre b post. ?fs = map JString pre @ JString b # post
            \<and> list_all (\<lambda>s. trim s \<noteq> []) pre \<and> trim b = []" by (intro exI conjI)
    then show ?thesis by (intro disjI2)
  next
    fix pre x post
    assume "?fs = map JString pre @ x # post"
      "list_all (\<lambda>s. trim s \<noteq> []) pre" "asString x = None"
    with a [of pre x post] have "fst (createProject db newId req) = Inl TypeError" by simp
    then show ?thesis by (intro disjI1)
  qed
  have d: "\<exists>r. fst (createProject db newId req) = Inr r"
    if "body_name req = JString n \<and> body_description req = JString d
          \<and> body_startDate req = JString s \<and> body_endDate req = JString e" for n d s e
  proof -
    from that have "\<exists>b. someFieldBlank ?fs = Inr b" by auto
    then obtain b where "someFieldBlank ?fs = Inr b" ..
    then show ?thesis
      using catch500_sends [of "''Some server error occurred while creating project''"
          "createProject_try db newId req"]
      by (cases b) (auto simp: createProject_def)
  qed
  from c have c': "fst (createProject db newId req) \<noteq> Inl TypeError \<longrightarrow>
        (\<exists>n d s e. body_name req = JString n \<and> body_description req = JString d
            \<and> body_startDate req = JString s \<and> body_endDate req = JString e) \<or>
        (\<exists>pre b post. ?fs = map JString pre @ JString b # post
            \<and> list_all (\<lambda>s. trim s \<noteq> []) pre \<and> trim b = [])"
    by argo
  show ?thesis
  proof (intro conjI allI impI)
    fix pre x post
    assume "?fs = map JString pre @ x # post \<and> list_all (\<lambda>s. trim s \<noteq> []) pre \<and> asString x = None"
    then show "createProject db newId req = (Inl TypeError, db)" by (rule a)
  next
    fix pre b post
    assume "?fs = map JString pre @ JString b # post \<and> list_all (\<lambda>s. trim s \<noteq> []) pre \<and> trim b = []"
    then show "createProject db newId req =
           (Inr (Response 400 (Obj [(''msg'', Str ''All fields are required'')])), db)" by (rule b)
  next
    assume "fst (createProject db newId req) \<noteq> Inl TypeError"
    with c' show "(\<exists>n d s e. body_name req = JString n \<and> body_description req = JString d
            \<and> body_startDate req = JString s \<and> body_endDate req = JString e) \<or>
        (\<exists>pre b post. ?fs = map JString pre @ JString b # post
            \<and> list_all (\<lambda>s. trim s \<noteq> []) pre \<and> trim b = [])" by (rule mp)
  next
    fix n d s e
    assume "body_name req = JString n \<and> body_description req = JString d
          \<and> body_startDate req = JString s \<and> body_endDate req = JString e"
    then show "\<exists>r. fst (createProject db newId req) = Inr r" by (rule d)
  qed
qed

theorem createProject_absent_field_witness:
  "createProject exampleStore P9 (createBody (JString ''Gamma'') JUndefined (JString '' '') JUndefined U1) =
     (Inl TypeError, exampleStore)
   \<and> createProject exampleStore P9 (createBody (JString ''Gamma'') (JString '' '') JUndefined JUndefined U1) =
     (Inr (Response 400 (Obj [(''msg'', Str ''All fields are required'')])), exampleStore)
   \<and> fst (createProject exampleStore P9 (createBody (JString []) JUndefined JUndefined JUndefined U1))
       \<noteq> Inl TypeError
   \<and> (\<exists>pre b post.
         [JString [], JUndefined, JUndefined, JUndefined] = map JString pre @ JString b # post
         \<and> list_all (\<lambda>s. trim s \<noteq> []) pre \<and> trim b = [])
   \<and> (\<exists>r. fst (createProject exampleStore P9
               (createBody (JString ''Gamma'') (JString ''g'') (JString ''2025-01-01'') (JString ''2025-12-31'') U1)) = Inr r)"
proof -
  let ?req = "createBody (JString ''Gamma'') JUndefined (JString '' '') JUndefined U1"
  let ?req' = "createBody (JString ''Gamma'') (JString '' '') JUndefined JUndefined U1"
  let ?blank = "createBody (JString []) JUndefined JUndefined JUndefined U1"
  have "[body_name ?req, body_description ?req, body_startDate ?req, body_endDate ?req]
          = map JString [''Gamma''] @ JUndefined # [JString '' '', JUndefined]
        \<and> list_all (\<lambda>s. trim s \<noteq> []) [''Gamma''] \<and> asString JUndefined = None"
    by (simp add: createBody_def noBody_def trim_def isWhiteSpace_def)
  then have 1: "createProject exampleStore P9 ?req = (Inl TypeError, exampleStore)"
    using createProject_absent_field [of ?req exampleStore P9] by blast
  have "[body_name ?req', body_description ?req', body_startDate ?req', body_endDate ?req']
          = map JString [''Gamma''] @ JString '' '' # [JUndefined, JUndefined]
        \<and> list_all (\<lambda>s. trim s \<noteq> []) [''Gamma''] \<and> trim '' '' = []"
    by (simp add: createBody_def noBody_def trim_def isWhiteSpace_def)
  then have 2: "createProject exampleStore P9 ?req' =
     (Inr (Response 400 (Obj [(''msg'', Str ''All fields are required'')])), exampleStore)"
    using createProject_absent_field [of ?req' exampleStore P9] by blast
  have 3: "fst (createProject exampleStore P9 ?blank) \<noteq> Inl TypeError"
    by (simp add: createProject_def createBody_def noBody_def trim_def)
  have f0: "[body_name ?blank, body_description ?blank, body_startDate ?blank, body_endDate ?blank]
      = [JString [], JUndefined, JUndefined, JUndefined]"
    by (simp add: createBody_def noBody_def)
  from 3 createProject_absent_field [of ?blank exampleStore P9]
  have 4: "\<exists>pre b post.
         [JString [], JUndefined, JUndefined, JUndefined] = map JString pre @ JString b # post
         \<and> list_all (\<lambda>s. trim s \<noteq> []) pre \<and> trim b = []"
    unfolding f0 by (simp add: createBody_def noBody_def)
  have 5: "\<exists>r. fst (createProject exampleStore P9
               (createBody (JString ''Gamma'') (JString ''g'') (JString ''2025-01-01'') (JString ''2025-12-31'') U1)) = Inr r"
    using createProject_absent_field [of
        "createBody (JString ''Gamma'') (JString ''g'') (JString ''2025-01-01'') (JString ''2025-12-31'') U1"
        exampleStore P9]
    by (simp add: createBody_def noBody_def)
  from 1 2 3 4 5 show ?thesis by simp
qed

text \<open>
  The claim C9 as it is stated fails: with an empty name and the three other fields
  absent, the test stops at the name and the handler sends the 400 response of the test
  (the ValidationError); no TypeError is thrown.
\<close>

theorem createProject_absent_field_counterexample:
  "body_description (createBody (JString []) JUndefined JUndefined JUndefined U1) = JUndefined
   \<and> createProject exampleStore P9 (createBody (JString []) JUndefined JUndefined JUndefined U1) =
       (Inr (Response 400 (Obj [(''msg'', Str ''All fields are required'')])), exampleStore)"
  by (simp add: createBody_def noBody_def createProject_def trim_def)

section \<open>getAllProjectsOfAUser\<close>

text \<open>
  The filter of getAllProjectsOfAUser names the path \<^verbatim>\<open>userId\<close>, which no Project
  document has: the query yields every project when \<^verbatim>\<open>strictQuery\<close> is on and none when it
  is off.
\<close>

lemma Project_find_userId:
  "Project_find strictQuery db [(''userId'', Some (Text u))] = (if strictQuery then projects db else [])"
  by (simp add: Project_find_def schemaPaths_def pathValue_def fieldMatches_def)

text \<open>
  C2. On the store with project Alpha of user \<open>U1\<close> and project Beta of user \<open>U2\<close>,
  the caller \<open>U1\<close> is answered with both projects (\<^verbatim>\<open>strictQuery\<close> on) or with none
  (\<^verbatim>\<open>strictQuery\<close> off), whereas the projects whose owner is \<open>U1\<close> are Alpha alone.
  In both cases the answer is a 200 response.
\<close>

theorem getAllProjectsOfAUser_not_by_owner:
  "getAllProjectsOfAUser True exampleStore (noBody [] [] U1) =
     (Inr (Response 200 (Obj [(''allProjects'', Docs [alpha, beta]),
                             (''msg'', Str ''All project of user fetched successfully!!'')])), exampleStore)
   \<and> getAllProjectsOfAUser False exampleStore (noBody [] [] U1) =
     (Inr (Response 200 (Obj [(''allProjects'', Docs []),
                             (''msg'', Str ''All project of user fetched successfully!!'')])), exampleStore)
   \<and> filter (\<lambda>p. owner p = Some U1) (projects exampleStore) = [alpha]"
  by (simp add: getAllProjectsOfAUser_def Project_find_userId noBody_def)
     (simp add: example_defs)

section \<open>updateProject\<close>

text \<open>
  When the lookup finds no project, the handler reads \<^verbatim>\<open>project.owner\<close> of \<^verbatim>\<open>null\<close>;
  the TypeError is caught and answered with 500.
\<close>

lemma updateProject_no_project:
  assumes "Project_findById castObjectId db (params_projectId req) = Inr None"
    and "\<not> (falsy (body_name req) \<and> falsy (body_description req) \<and> falsy (body_startDate req)
            \<and> falsy (body_endDate req) \<and> falsy (body_status req))"
  shows "updateProject castObjectId schemaCast db req =
        (Inr (Response 500 (Obj [(''msg'', Str ''Some server error occured while updating project!! :('')])), db)"
  using assms by (simp add: updateProject_def updateProject_try_def catch500_def)

text \<open>
  C1. For the valid identifier \<open>P9\<close>, which names no stored project, and a patch that
  gives a new name, updateProject answers 500 (the ServerError), where getProjectById
  answers 404 for the same identifier.
\<close>

theorem updateProject_missing_project_500:
  "isValidObjectId hexObjectId P9 \<and> Project_findById hexObjectId exampleStore P9 = Inr None
   \<and> updateProject_try hexObjectId nullOnly exampleStore ((noBody P9 [] U1)\<lparr>body_name := JString ''Gamma''\<rparr>) =
       (Inl TypeError, exampleStore)
   \<and> updateProject hexObjectId nullOnly exampleStore ((noBody P9 [] U1)\<lparr>body_name := JString ''Gamma''\<rparr>) =
       (Inr (Response 500 (Obj [(''msg'', Str ''Some server error occured while updating project!! :('')])),
        exampleStore)
   \<and> getProjectById hexObjectId exampleStore (noBody P9 [] U1) =
       (Inr (Response 404 (Obj [(''msg'', Str ''Project Not Found!!'')])), exampleStore)"
proof -
  have c: "hexObjectId P9 = Some P9" by (simp add: example_defs)
  then have f: "Project_findById hexObjectId exampleStore P9 = Inr None"
    by (simp add: Project_findById_def) (simp add: example_defs)
  from c f updateProject_no_project [of hexObjectId exampleStore
      "(noBody P9 [] U1)\<lparr>body_name := JString ''Gamma''\<rparr>" nullOnly]
  show ?thesis
    by (simp add: noBody_def isValidObjectId_def updateProject_try_def
        getProjectById_def getProjectById_try_def catch500_def)
qed

text \<open>
  C5, as amended. When the stored project's owner is not the caller, updateProject
  leaves the store unchanged, whatever the patch is. When at least one of the five patch
  fields is truthy, the answer is the 400 response of the owner check (the
  AuthorizationError); when none is, the answer is the 400 response of the test on the
  patch (the ValidationError), which runs first.
\<close>

theorem updateProject_non_owner:
  assumes "Project_findById castObjectId db (params_projectId req) = Inr (Some p)"
    and "owner p \<noteq> user_id req"
  shows "snd (updateProject castObjectId schemaCast db req) = db
    \<and> (\<not> (falsy (body_name req) \<and> falsy (body_description req) \<and> falsy (body_startDate req)
            \<and> falsy (body_endDate req) \<and> falsy (body_status req))
        \<longrightarrow> fst (updateProject castObjectId schemaCast db req) =
              Inr (Response 400 (Obj [(''msg'', Str ''You are not authorized to make changes to this project!!'')])))
    \<and> (falsy (body_name req) \<and> falsy (body_description req) \<and> falsy (body_startDate req)
            \<and> falsy (body_endDate req) \<and> falsy (body_status req)
        \<longrightarrow> fst (updateProject castObjectId schemaCast db req) =
              Inr (Response 400 (Obj [(''msg'', Str ''Enter some details to change/update'')])))"
  using assms by (auto simp: updateProject_def updateProject_try_def catch500_def)

theorem updateProject_non_owner_witness:
  "Project_findById hexObjectId exampleStore P1 = Inr (Some alpha)
   \<and> owner alpha \<noteq> Some U3
   \<and> updateProject hexObjectId nullOnly exampleStore ((noBody P1 [] U3)\<lparr>body_name := JString ''Beta''\<rparr>) =
       (Inr (Response 400 (Obj [(''msg'', Str ''You are not authorized to make changes to this project!!'')])),
        exampleStore)
   \<and> updateProject hexObjectId nullOnly exampleStore ((noBody P1 [] U3)\<lparr>body_name := JNumber 0\<rparr>) =
       (Inr (Response 400 (Obj [(''msg'', Str ''Enter some details to change/update'')])), exampleStore)"
proof -
  have f: "Project_findById hexObjectId exampleStore P1 = Inr (Some alpha)" "owner alpha \<noteq> Some U3"
    by (simp_all add: example_defs Project_findById_def)
  from f updateProject_non_owner [of hexObjectId exampleStore
      "(noBody P1 [] U3)\<lparr>body_name := JString ''Beta''\<rparr>" alpha nullOnly]
    updateProject_non_owner [of hexObjectId exampleStore
      "(noBody P1 [] U3)\<lparr>body_name := JNumber 0\<rparr>" alpha nullOnly]
  show ?thesis by (simp add: noBody_def prod_eq_iff)
qed

text \<open>
  The claim C5 as it is stated fails: user \<open>U3\<close>, who does not own project Alpha, sends
  a patch with no field and is answered with the 400 response of the test on the patch
  (the ValidationError), not with that of the owner check.
\<close>

theorem updateProject_non_owner_counterexample:
  "Project_findById hexObjectId exampleStore (params_projectId (noBody P1 [] U3)) = Inr (Some alpha)
   \<and> owner alpha \<noteq> user_id (noBody P1 [] U3)
   \<and> updateProject hexObjectId nullOnly exampleStore (noBody P1 [] U3) =
       (Inr (Response 400 (Obj [(''msg'', Str ''Enter some details to change/update'')])), exampleStore)"
  by (simp add: example_defs Project_findById_def updateProject_def)

text \<open>
  What a field is after the \<^verbatim>\<open>$set\<close>, and what a 200 answer of updateProject tells.
\<close>

lemma castField_written:
  "castField schemaCast k v = Inr w \<Longrightarrow>
     (case v of
        JUndefined \<Rightarrow> written w old = old
      | JString s \<Rightarrow> written w old = Some s
      | x \<Rightarrow> schemaCast k x = Some (written w old))"
  by (cases v; cases "schemaCast k v") (auto simp: written_def)

lemma castSet_Inr:
  assumes "castSet schemaCast n d s e st = Inr upd"
  shows "\<exists>wn wd ws we wst.
      castField schemaCast ''name'' n = Inr wn \<and> castField schemaCast ''description'' d = Inr wd
      \<and> castField schemaCast ''startDate'' s = Inr ws \<and> castField schemaCast ''endDate'' e = Inr we
      \<and> castField schemaCast ''status'' st = Inr wst
      \<and> upd = (\<lambda>p. p\<lparr>name := written wn (name p), description := written wd (description p),
                       startDate := written ws (startDate p), endDate := written we (endDate p),
                       status := written wst (status p)\<rparr>)"
  using assms by (auto simp: castSet_def split: sum.splits)

lemma updateProject_200:
  assumes "updateProject castObjectId schemaCast db req = (Inr (Response 200 body), db')"
  shows "\<exists>c p upd. castObjectId (params_projectId req) = Some c
      \<and> find (\<lambda>q. docId q = c) (projects db) = Some p
      \<and> castSet schemaCast (body_name req) (body_description req) (body_startDate req)
            (body_endDate req) (body_status req) = Inr upd
      \<and> body = Obj [(''updateProject'', Doc (upd p)), (''msg'', Str ''Project updated successfully!!'')]
      \<and> db' = db\<lparr>projects := replaceFirst c (upd p) (projects db)\<rparr>"
proof -
  let ?i = "params_projectId req"
  let ?cs = "castSet schemaCast (body_name req) (body_description req) (body_startDate req)
            (body_endDate req) (body_status req)"
  from assms have t: "updateProject_try castObjectId schemaCast db req = (Inr (Response 200 body), db')"
    by (cases "updateProject_try castObjectId schemaCast db req";
        cases "fst (updateProject_try castObjectId schemaCast db req)")
       (auto simp: updateProject_def catch500_def split: if_splits)
  then obtain c where c: "castObjectId ?i = Some c"
    by (cases "castObjectId ?i") (auto simp: updateProject_try_def Project_findById_def)
  with t obtain p where p: "find (\<lambda>q. docId q = c) (projects db) = Some p"
    by (cases "find (\<lambda>q. docId q = c) (projects db)")
       (auto simp: updateProject_try_def Project_findById_def)
  from t c p have o: "owner p = user_id req"
    by (auto simp: updateProject_try_def Project_findById_def split: if_splits)
  from t c p o obtain upd where u: "?cs = Inr upd"
    by (cases ?cs)
       (auto simp: updateProject_try_def Project_findById_def Project_findByIdAndUpdate_def)
  from t c p o u have "body = Obj [(''updateProject'', Doc (upd p)), (''msg'', Str ''Project updated successfully!!'')]"
    "db' = db\<lparr>projects := replaceFirst c (upd p) (projects db)\<rparr>"
    by (auto simp: updateProject_try_def Project_findById_def Project_findByIdAndUpdate_def)
  with c p u show ?thesis by blast
qed

text \<open>
  C7. When updateProject answers 200, the project \<open>p\<close> stored under the identifier
  before the call and the project \<open>p'\<close> stored under it after the call differ only in the
  fields the patch gives: each of name, description, startDate, endDate and status is the
  old value when the patch does not have the field, the patch's string when it has one,
  and what the schema's cast makes of the patch's value when that is not a string; the
  identifier, the owner, the members and totalHours are the old ones. The response
  carries \<open>p'\<close>, the other documents and the users are as before.
\<close>

theorem updateProject_success_frame:
  assumes "updateProject castObjectId schemaCast db req = (Inr (Response 200 body), db')"
  shows "\<exists>p p'. Project_findById castObjectId db (params_projectId req) = Inr (Some p)
      \<and> Project_findById castObjectId db' (params_projectId req) = Inr (Some p')
      \<and> body = Obj [(''updateProject'', Doc p'), (''msg'', Str ''Project updated successfully!!'')]
      \<and> (case body_name req of
            JUndefined \<Rightarrow> name p' = name p
          | JString v \<Rightarrow> name p' = Some v
          | v \<Rightarrow> schemaCast ''name'' v = Some (name p'))
      \<and> (case body_description req of
            JUndefined \<Rightarrow> description p' = description p
          | JString v \<Rightarrow> description p' = Some v
          | v \<Rightarrow> schemaCast ''description'' v = Some (description p'))
      \<and> (case body_startDate req of
            JUndefined \<Rightarrow> startDate p' = startDate p
          | JString v \<Rightarrow> startDate p' = Some v
          | v \<Rightarrow> schemaCast ''startDate'' v = Some (startDate p'))
      \<and> (case body_endDate req of
            JUndefined \<Rightarrow> endDate p' = endDate p
          | JString v \<Rightarrow> endDate p' = Some v
          | v \<Rightarrow> schemaCast ''endDate'' v = Some (endDate p'))
      \<and> (case body_status req of
            JUndefined \<Rightarrow> status p' = status p
          | JString v \<Rightarrow> status p' = Some v
          | v \<Rightarrow> schemaCast ''status'' v = Some (status p'))
      \<and> docId p' = docId p \<and> owner p' = owner p \<and> members p' = members p
      \<and> totalHours p' = totalHours p
      \<and> projects db' = replaceFirst (docId p) p' (projects db)
      \<and> users db' = users db"
proof -
  let ?i = "params_projectId req"
  from updateProject_200 [OF assms] obtain c p upd where
    h: "castObjectId ?i = Some c" "find (\<lambda>q. docId q = c) (projects db) = Some p"
      "castSet schemaCast (body_name req) (body_description req) (body_startDate req)
            (body_endDate req) (body_status req) = Inr upd"
      "body = Obj [(''updateProject'', Doc (upd p)), (''msg'', Str ''Project updated successfully!!'')]"
      "db' = db\<lparr>projects := replaceFirst c (upd p) (projects db)\<rparr>"
    by blast
  from castSet_Inr [OF h(3)] obtain wn wd ws we wst where
    w: "castField schemaCast ''name'' (body_name req) = Inr wn"
      "castField schemaCast ''description'' (body_description req) = Inr wd"
      "castField schemaCast ''startDate'' (body_startDate req) = Inr ws"
      "castField schemaCast ''endDate'' (body_endDate req) = Inr we"
      "castField schemaCast ''status'' (body_status req) = Inr wst"
      "upd = (\<lambda>p. p\<lparr>name := written wn (name p), description := written wd (description p),
                       startDate := written ws (startDate p), endDate := written we (endDate p),
                       status := written wst (status p)\<rparr>)"
    by blast
  let ?p' = "upd p"
  have i: "docId p = c" using find_docId [OF h(2)] by simp
  have k: "docId ?p' = c" "owner ?p' = owner p" "members ?p' = members p"
    "totalHours ?p' = totalHours p"
    "name ?p' = written wn (name p)" "description ?p' = written wd (description p)"
    "startDate ?p' = written ws (startDate p)" "endDate ?p' = written we (endDate p)"
    "status ?p' = written wst (status p)"
    using i by (simp_all add: w(6))
  have found: "find (\<lambda>q. docId q = c) (projects db') = Some ?p'"
    using find_replaceFirst [OF h(2) k(1)] h(5) by simp
  have 1: "Project_findById castObjectId db ?i = Inr (Some p)"
    "Project_findById castObjectId db' ?i = Inr (Some ?p')"
    using h(1,2) found by (simp_all add: Project_findById_def)
  have 2: "projects db' = replaceFirst (docId p) ?p' (projects db)" "users db' = users db"
    using h(5) i by simp_all
  note f = castField_written [OF w(1), of "name p"] castField_written [OF w(2), of "description p"]
    castField_written [OF w(3), of "startDate p"] castField_written [OF w(4), of "endDate p"]
    castField_written [OF w(5), of "status p"]
  show ?thesis
    apply (rule exI [of _ p], rule exI [of _ ?p'])
    using 1 2 h(4) f i
    unfolding k by simp
qed

theorem updateProject_success_frame_witness:
  "updateProject hexObjectId nullOnly exampleStore
     ((noBody P2 [] U2)\<lparr>body_name := JString ''Gamma'', body_status := JNull\<rparr>) =
     (Inr (Response 200 (Obj [(''updateProject'', Doc (beta\<lparr>name := Some ''Gamma'', status := None\<rparr>)),
                             (''msg'', Str ''Project updated successfully!!'')])),
      \<lparr>projects = [alpha, beta\<lparr>name := Some ''Gamma'', status := None\<rparr>], users = [U1, U2, U3]\<rparr>)
   \<and> (\<exists>p p'. Project_findById hexObjectId exampleStore P2 = Inr (Some p)
        \<and> Project_findById hexObjectId
             \<lparr>projects = [alpha, beta\<lparr>name := Some ''Gamma'', status := None\<rparr>], users = [U1, U2, U3]\<rparr> P2
           = Inr (Some p')
        \<and> name p' = Some ''Gamma'' \<and> nullOnly ''status'' JNull = Some (status p')
        \<and> description p' = description p \<and> startDate p' = startDate p \<and> endDate p' = endDate p
        \<and> owner p' = owner p \<and> members p' = members p \<and> totalHours p' = totalHours p)"
proof -
  have run: "updateProject hexObjectId nullOnly exampleStore
     ((noBody P2 [] U2)\<lparr>body_name := JString ''Gamma'', body_status := JNull\<rparr>) =
     (Inr (Response 200 (Obj [(''updateProject'', Doc (beta\<lparr>name := Some ''Gamma'', status := None\<rparr>)),
                             (''msg'', Str ''Project updated successfully!!'')])),
      \<lparr>projects = [alpha, beta\<lparr>name := Some ''Gamma'', status := None\<rparr>], users = [U1, U2, U3]\<rparr>)"
    by (simp add: example_defs handler_defs)
  from updateProject_success_frame [OF run] show ?thesis
    using run by (auto simp: noBody_def)
qed

text \<open>
  C10, as amended. When none of the five patch fields is truthy, updateProject sends the
  400 response of the test on the patch (the ValidationError), whatever the projectId and
  the store are: no lookup is made. For a syntactically invalid projectId and a patch
  with a truthy field, updateProject reaches the lookup, whose CastError is caught and
  answered with 500 (the ServerError). getProjectById and deleteProject answer an invalid
  projectId with the 401 response of their identifier check (the ValidationError).
\<close>

theorem updateProject_invalid_id:
  "(falsy (body_name req) \<and> falsy (body_description req) \<and> falsy (body_startDate req)
        \<and> falsy (body_endDate req) \<and> falsy (body_status req)
      \<longrightarrow> updateProject castObjectId schemaCast db req =
            (Inr (Response 400 (Obj [(''msg'', Str ''Enter some details to change/update'')])), db))
   \<and> (\<not> isValidObjectId castObjectId (params_projectId req)
        \<and> \<not> (falsy (body_name req) \<and> falsy (body_description req) \<and> falsy (body_startDate req)
              \<and> falsy (body_endDate req) \<and> falsy (body_status req))
      \<longrightarrow> updateProject_try castObjectId schemaCast db req = (Inl CastError, db)
          \<and> updateProject castObjectId schemaCast db req =
              (Inr (Response 500 (Obj [(''msg'', Str ''Some server error occured while updating project!! :('')])), db))
   \<and> (\<not> isValidObjectId castObjectId (params_projectId req)
      \<longrightarrow> getProjectById castObjectId db req =
            (Inr (Response 401 (Obj [(''msg'', Str ''Enter valid project Id'')])), db)
          \<and> deleteProject castObjectId db req =
              (Inr (Response 401 (Obj [(''msg'', Str ''Invalid objectId or project ID'')])), db))"
  by (simp add: updateProject_def updateProject_try_def catch500_def Project_findById_def
      isValidObjectId_def getProjectById_def deleteProject_def)

theorem updateProject_invalid_id_witness:
  "\<not> isValidObjectId hexObjectId ''not-an-id''
   \<and> updateProject hexObjectId nullOnly exampleStore ((noBody ''not-an-id'' [] U1)\<lparr>body_name := JString ''Gamma''\<rparr>) =
       (Inr (Response 500 (Obj [(''msg'', Str ''Some server error occured while updating project!! :('')])),
        exampleStore)
   \<and> updateProject hexObjectId nullOnly exampleStore ((noBody ''not-an-id'' [] U1)\<lparr>body_name := JString []\<rparr>) =
       (Inr (Response 400 (Obj [(''msg'', Str ''Enter some details to change/update'')])), exampleStore)
   \<and> getProjectById hexObjectId exampleStore (noBody ''not-an-id'' [] U1) =
       (Inr (Response 401 (Obj [(''msg'', Str ''Enter valid project Id'')])), exampleStore)
   \<and> deleteProject hexObjectId exampleStore (noBody ''not-an-id'' [] U1) =
       (Inr (Response 401 (Obj [(''msg'', Str ''Invalid objectId or project ID'')])), exampleStore)"
proof -
  have v: "\<not> isValidObjectId hexObjectId ''not-an-id''"
    by (simp add: isValidObjectId_def hexObjectId_def hexString24_def)
  from v updateProject_invalid_id [of "(noBody ''not-an-id'' [] U1)\<lparr>body_name := JString ''Gamma''\<rparr>"
      hexObjectId nullOnly exampleStore]
    updateProject_invalid_id [of "(noBody ''not-an-id'' [] U1)\<lparr>body_name := JString []\<rparr>"
      hexObjectId nullOnly exampleStore]
    updateProject_invalid_id [of "noBody ''not-an-id'' [] U1" hexObjectId nullOnly exampleStore]
  show ?thesis by (simp add: noBody_def)
qed

text \<open>
  The claim C10 as it is stated fails: for the invalid identifier \<open>not-an-id\<close> and a
  patch with no field, updateProject never reaches the lookup and sends the 400 response
  of the test on the patch (the ValidationError).
\<close>

theorem updateProject_invalid_id_counterexample:
  "\<not> isValidObjectId hexObjectId (params_projectId (noBody ''not-an-id'' [] U1))
   \<and> updateProject hexObjectId nullOnly exampleStore (noBody ''not-an-id'' [] U1) =
       (Inr (Response 400 (Obj [(''msg'', Str ''Enter some details to change/update'')])), exampleStore)"
  by (simp add: isValidObjectId_def hexObjectId_def hexString24_def noBody_def updateProject_def)

section \<open>deleteProject\<close>



section \<open>addMembersToProject\<close>















end
